theory Spec2Isabelle
  imports Complex_Main
begin

section \<open>The task form dialog (src/src/components/TaskForm.tsx)\<close>

text \<open>
  The component keeps eight pieces of local state, derives two values from them
  (\<open>duplicateTitle\<close>, \<open>canSubmit\<close>) and has four pieces of logic: the effect that
  runs when the dialog opens, the two numeric change handlers and the submit handler.
  Each is embedded below as a function on an explicit state record. The two callback
  props \<open>onSubmit\<close> and \<open>onClose\<close> are caller code: the model records the
  calls the handler makes, in order.
\<close>

subsection \<open>JavaScript values\<close>

text \<open>
  A JavaScript number is a finite value, one of the two infinities, or NaN. Only
  \<open>Number.isFinite\<close> and comparisons with the literal \<open>0\<close> are applied to
  numbers in this component, so a finite number is represented by the real it denotes
  (\<open>-0\<close> and \<open>0\<close> compare alike and are one value here).
\<close>

datatype jsnum = Fin real | PosInf | NegInf | NaN

text \<open>\<open>Number.isFinite(x)\<close>.\<close>

fun isFinite :: "jsnum \<Rightarrow> bool" where
  "isFinite (Fin r) = True"
| "isFinite PosInf = False"
| "isFinite NegInf = False"
| "isFinite NaN = False"

text \<open>
  The relational operators on numbers: every comparison with NaN is false, and
  \<open>-Infinity < r < Infinity\<close> for every finite \<open>r\<close>.
\<close>

fun js_lt :: "jsnum \<Rightarrow> jsnum \<Rightarrow> bool" where
  "js_lt NaN y = False"
| "js_lt x NaN = False"
| "js_lt (Fin a) (Fin b) = (a < b)"
| "js_lt (Fin a) PosInf = True"
| "js_lt (Fin a) NegInf = False"
| "js_lt PosInf y = False"
| "js_lt NegInf NegInf = False"
| "js_lt NegInf y = True"

fun js_le :: "jsnum \<Rightarrow> jsnum \<Rightarrow> bool" where
  "js_le NaN y = False"
| "js_le x NaN = False"
| "js_le (Fin a) (Fin b) = (a \<le> b)"
| "js_le (Fin a) PosInf = True"
| "js_le (Fin a) NegInf = False"
| "js_le PosInf PosInf = True"
| "js_le PosInf y = False"
| "js_le NegInf y = True"

definition js_gt :: "jsnum \<Rightarrow> jsnum \<Rightarrow> bool" where
  "js_gt x y = js_lt y x"

definition js_ge :: "jsnum \<Rightarrow> jsnum \<Rightarrow> bool" where
  "js_ge x y = js_le y x"

text \<open>
  Strings are modelled over ASCII. \<open>String.prototype.trim\<close> removes white space
  (tab, line feed, vertical tab, form feed, carriage return, space) from both ends;
  \<open>String.prototype.toLowerCase\<close> maps each capital letter to its small letter.
\<close>

definition isWhiteSpace :: "char \<Rightarrow> bool" where
  "isWhiteSpace c = (c \<in> set [CHR 0x09, CHR 0x0A, CHR 0x0B, CHR 0x0C, CHR 0x0D, CHR '' ''])"

definition trim :: "string \<Rightarrow> string" where
  "trim s = rev (dropWhile isWhiteSpace (rev (dropWhile isWhiteSpace s)))"

definition lowerChar :: "char \<Rightarrow> char" where
  "lowerChar c =
     (case map_of (zip ''ABCDEFGHIJKLMNOPQRSTUVWXYZ'' ''abcdefghijklmnopqrstuvwxyz'') c of
        None \<Rightarrow> c
      | Some d \<Rightarrow> d)"

definition toLowerCase :: "string \<Rightarrow> string" where
  "toLowerCase s = map lowerChar s"

subsection \<open>Data model\<close>

text \<open>
  Modelled from the spec: the declarations of \<open>Priority\<close>, \<open>Status\<close> and \<open>Task\<close>
  are imported from \<open>@/types\<close>, which is not among the sources. The spec gives
  \<open>Task\<close> as \<open>{id: string, title: string, revenue: number, timeTaken: number,
  priority: High | Medium | Low, status: Todo | In Progress | Done, notes?: string,
  createdAt: timestamp, completedAt?: timestamp}\<close>; the arrays \<open>priorities\<close> and
  \<open>statuses\<close> of the component list the same enumeration values. An optional
  field is an \<open>option\<close>; a timestamp is the ISO string the component produces.
  The field \<open>id\<close> is written \<open>id'\<close> and \<open>notes\<close> is written \<open>notes'\<close>.
\<close>

datatype Priority = High | Medium | Low

datatype Status = Todo | InProgress | Done

record TaskBody =
  title :: string
  revenue :: jsnum
  timeTaken :: jsnum
  priority :: Priority
  status :: Status
  notes' :: "string option"
  createdAt :: string
  completedAt :: "string option"

record Task = TaskBody +
  id' :: string

text \<open>The argument of \<open>onSubmit\<close>: \<open>Omit<Task, 'id'> & { id?: string }\<close>.\<close>

record Payload = TaskBody +
  id' :: "string option"

text \<open>
  The \<open>useState\<close> cells of the component. A cell of type \<open>T | ''\<close> is an
  option, \<open>None\<close> standing for the empty string; a cell of type
  \<open>string | null\<close> is an option, \<open>None\<close> standing for \<open>null\<close>.
\<close>

record FormState =
  title :: string
  revenue :: "jsnum option"
  timeTaken :: "jsnum option"
  priority :: "Priority option"
  status :: "Status option"
  notes' :: string
  revenueError :: "string option"
  timeError :: "string option"

text \<open>A call of one of the two callback props.\<close>

datatype call = OnSubmit Payload | OnClose

subsection \<open>The effect on \<open>[open, initial]\<close>\<close>

definition openEffect :: "bool \<Rightarrow> Task option \<Rightarrow> FormState \<Rightarrow> FormState" where
  "openEffect isOpen initial s =
     (if \<not> isOpen then s
      else case initial of
        Some i \<Rightarrow>
          s\<lparr>FormState.title := TaskBody.title i,
            FormState.revenue := Some (TaskBody.revenue i),
            FormState.timeTaken := Some (TaskBody.timeTaken i),
            FormState.priority := Some (TaskBody.priority i),
            FormState.status := Some (TaskBody.status i),
            FormState.notes' := (case TaskBody.notes' i of None \<Rightarrow> [] | Some n \<Rightarrow> n)\<rparr>
      | None \<Rightarrow>
          s\<lparr>FormState.title := [],
            FormState.revenue := None,
            FormState.timeTaken := None,
            FormState.priority := None,
            FormState.status := None,
            FormState.notes' := [],
            revenueError := None,
            timeError := None\<rparr>)"

subsection \<open>Derived values\<close>

definition duplicateTitle :: "string list \<Rightarrow> Task option \<Rightarrow> string \<Rightarrow> bool" where
  "duplicateTitle existingTitles initial ttl =
     (let current = toLowerCase (trim ttl) in
      if current = [] then False
      else
        let others =
              (case initial of
                 Some i \<Rightarrow>
                   filter (\<lambda>t. toLowerCase t \<noteq> toLowerCase (TaskBody.title i)) existingTitles
               | None \<Rightarrow> existingTitles)
        in current \<in> set (map toLowerCase others))"

definition canSubmit :: "string list \<Rightarrow> Task option \<Rightarrow> FormState \<Rightarrow> bool" where
  "canSubmit existingTitles initial s =
     (trim (FormState.title s) \<noteq> [] \<and>
      \<not> duplicateTitle existingTitles initial (FormState.title s) \<and>
      (case FormState.revenue s of
         None \<Rightarrow> False
       | Some r \<Rightarrow> isFinite r \<and> js_ge r (Fin 0)) \<and>
      (case FormState.timeTaken s of
         None \<Rightarrow> False
       | Some t \<Rightarrow> isFinite t \<and> js_gt t (Fin 0)) \<and>
      FormState.priority s \<noteq> None \<and>
      FormState.status s \<noteq> None)"

subsection \<open>Change handlers of the numeric fields\<close>

text \<open>
  \<open>Number(v)\<close>, the conversion of the input's text to a number, is a parameter
  of the two handlers.
\<close>

definition handleRevenueChange :: "(string \<Rightarrow> jsnum) \<Rightarrow> string \<Rightarrow> FormState \<Rightarrow> FormState" where
  "handleRevenueChange Number v s =
     (if v = [] then
        s\<lparr>FormState.revenue := None, revenueError := Some ''Revenue is required''\<rparr>
      else
        let num = Number v in
        if \<not> isFinite num \<or> js_lt num (Fin 0) then
          s\<lparr>FormState.revenue := Some num,
            revenueError := Some ''Enter a valid non-negative number''\<rparr>
        else
          s\<lparr>FormState.revenue := Some num, revenueError := None\<rparr>)"

definition handleTimeChange :: "(string \<Rightarrow> jsnum) \<Rightarrow> string \<Rightarrow> FormState \<Rightarrow> FormState" where
  "handleTimeChange Number v s =
     (if v = [] then
        s\<lparr>FormState.timeTaken := None, timeError := Some ''Time taken is required''\<rparr>
      else
        let num = Number v in
        if \<not> isFinite num \<or> js_le num (Fin 0) then
          s\<lparr>FormState.timeTaken := Some num,
            timeError := Some ''Enter a positive number (> 0)''\<rparr>
        else
          s\<lparr>FormState.timeTaken := Some num, timeError := None\<rparr>)"

subsection \<open>The submit handler\<close>

text \<open>
  \<open>nowCreated\<close> and \<open>nowCompleted\<close> are what \<open>new Date().toISOString()\<close>
  returns at its first and its second occurrence in the handler; each is read only when
  the value left of \<open>??\<close> is missing. The result is the state after the handler's
  \<open>setRevenueError\<close> and \<open>setTimeError\<close> calls, and the calls it made of
  the callback props, in order.
\<close>

definition handleSubmit ::
  "string \<Rightarrow> string \<Rightarrow> Task option \<Rightarrow> FormState \<Rightarrow> FormState \<times> call list" where
  "handleSubmit nowCreated nowCompleted initial s =
     (let revNum = (case FormState.revenue s of Some r \<Rightarrow> r | None \<Rightarrow> NaN);
          timeNum = (case FormState.timeTaken s of Some t \<Rightarrow> t | None \<Rightarrow> NaN);
          revBad = (\<not> isFinite revNum \<or> js_lt revNum (Fin 0));
          timeBad = (\<not> isFinite timeNum \<or> js_le timeNum (Fin 0));
          s1 = (if revBad then s\<lparr>revenueError := Some ''Enter a valid non-negative number''\<rparr>
                else s);
          s2 = (if timeBad then s1\<lparr>timeError := Some ''Enter a positive number (> 0)''\<rparr>
                else s1);
          valid = (\<not> revBad \<and> \<not> timeBad)
      in if \<not> valid then (s2, [])
         else
           let safeTime = (if js_gt timeNum (Fin 0) then timeNum else Fin 1);
               created = (case initial of Some i \<Rightarrow> createdAt i | None \<Rightarrow> nowCreated);
               completed =
                 (if FormState.status s = Some Done then
                    (case initial of
                       Some i \<Rightarrow>
                         (case completedAt i of Some c \<Rightarrow> Some c | None \<Rightarrow> Some nowCompleted)
                     | None \<Rightarrow> Some nowCompleted)
                  else None);
               basePayload =
                 \<lparr>TaskBody.title = trim (FormState.title s),
                  TaskBody.revenue = (if isFinite revNum then revNum else Fin 0),
                  TaskBody.timeTaken = safeTime,
                  TaskBody.priority =
                    (case FormState.priority s of Some p \<Rightarrow> p | None \<Rightarrow> Medium),
                  TaskBody.status =
                    (case FormState.status s of Some st \<Rightarrow> st | None \<Rightarrow> Todo),
                  TaskBody.notes' =
                    (if trim (FormState.notes' s) = [] then None
                     else Some (trim (FormState.notes' s))),
                  createdAt = created,
                  completedAt = completed,
                  Payload.id' = None\<rparr>;
               payload =
                 (case initial of
                    Some i \<Rightarrow>
                      (if Task.id' i \<noteq> [] then basePayload\<lparr>Payload.id' := Some (Task.id' i)\<rparr>
                       else basePayload)
                  | None \<Rightarrow> basePayload)
           in (s2, [OnSubmit payload, OnClose]))"

subsection \<open>The conditions the properties are stated with\<close>

text \<open>"A finite number \<open>\<ge> 0\<close>" and "a finite number \<open>> 0\<close>", of a numeric cell.\<close>

fun finiteNonNeg :: "jsnum option \<Rightarrow> bool" where
  "finiteNonNeg (Some (Fin r)) = (0 \<le> r)"
| "finiteNonNeg other = False"

fun finitePos :: "jsnum option \<Rightarrow> bool" where
  "finitePos (Some (Fin r)) = (0 < r)"
| "finitePos other = False"

text \<open>
  The condition of the duplicate check in the words of the specification: "the trimmed,
  lower-cased title equals (case-insensitively) some entry of \<open>existingTitles\<close>
  other than the initial task's own title when editing".
\<close>

definition titleTakenAsStated :: "string list \<Rightarrow> Task option \<Rightarrow> string \<Rightarrow> bool" where
  "titleTakenAsStated existingTitles initial ttl =
     (\<exists>t \<in> set existingTitles.
        toLowerCase (trim ttl) = toLowerCase t \<and>
        (case initial of
           None \<Rightarrow> True
         | Some i \<Rightarrow> t \<noteq> TaskBody.title i))"

text \<open>
  In the words of the specification: the title entered is "case-insensitively equal to
  an existing title other than the one being edited".
\<close>

definition enteredTitleExists :: "string list \<Rightarrow> Task option \<Rightarrow> string \<Rightarrow> bool" where
  "enteredTitleExists existingTitles initial ttl =
     (\<exists>t \<in> set existingTitles.
        toLowerCase ttl = toLowerCase t \<and>
        (case initial of
           None \<Rightarrow> True
         | Some i \<Rightarrow> t \<noteq> TaskBody.title i))"

text \<open>
  The same condition with both comparisons as the component makes them: the title is
  trimmed and lower-cased, an entry is lower-cased only, and an entry counts as the
  initial task's own title when the two are equal after lower-casing.
\<close>

definition titleTaken :: "string list \<Rightarrow> Task option \<Rightarrow> string \<Rightarrow> bool" where
  "titleTaken existingTitles initial ttl =
     (\<exists>t \<in> set existingTitles.
        toLowerCase (trim ttl) = toLowerCase t \<and>
        (case initial of
           None \<Rightarrow> True
         | Some i \<Rightarrow> toLowerCase t \<noteq> toLowerCase (TaskBody.title i)))"

subsection \<open>Sample inputs\<close>

definition sampleTask :: Task where
  "sampleTask =
     \<lparr>TaskBody.title = ''Write report'', TaskBody.revenue = Fin 120, TaskBody.timeTaken = Fin 3,
      TaskBody.priority = High, TaskBody.status = Done, TaskBody.notes' = Some ''first draft'',
      createdAt = ''2024-01-01T00:00:00.000Z'', completedAt = Some ''2024-01-02T00:00:00.000Z'',
      Task.id' = ''t-1''\<rparr>"

definition sampleDraft :: FormState where
  "sampleDraft =
     \<lparr>FormState.title = '' Plan Sprint '', FormState.revenue = Some (Fin 50),
      FormState.timeTaken = Some (Fin 2), FormState.priority = Some Low,
      FormState.status = Some InProgress, FormState.notes' = ''  '',
      revenueError = Some ''Revenue is required'', timeError = None\<rparr>"

definition blankDraft :: FormState where
  "blankDraft =
     \<lparr>FormState.title = ''  '', FormState.revenue = Some (Fin 0),
      FormState.timeTaken = Some (Fin 1), FormState.priority = None,
      FormState.status = None, FormState.notes' = [],
      revenueError = None, timeError = None\<rparr>"

section \<open>Properties\<close>

subsection \<open>Numbers and strings\<close>

lemma revenue_gate_iff: "(isFinite x \<and> js_ge x (Fin 0)) = finiteNonNeg (Some x)"
  by (cases x) (auto simp: js_ge_def)

lemma time_gate_iff: "(isFinite x \<and> js_gt x (Fin 0)) = finitePos (Some x)"
  by (cases x) (auto simp: js_gt_def)

lemma finiteNonNeg_cases:
  "finiteNonNeg c = (\<exists>r. c = Some (Fin r) \<and> 0 \<le> r)"
  by (cases c rule: finiteNonNeg.cases) auto

lemma finitePos_cases:
  "finitePos c = (\<exists>r. c = Some (Fin r) \<and> 0 < r)"
  by (cases c rule: finitePos.cases) auto

lemma toLowerCase_empty_iff: "(toLowerCase s = []) = (s = [])"
  by (simp add: toLowerCase_def)

lemma trim_sample: "trim '' Plan Sprint '' = ''Plan Sprint''"
  by (simp add: trim_def isWhiteSpace_def)

lemma trim_blank: "trim ''  '' = []"
  by (simp add: trim_def isWhiteSpace_def)

subsection \<open>The submit handler, case by case\<close>

lemma revNum_ok_iff:
  "(isFinite (case c of Some r \<Rightarrow> r | None \<Rightarrow> NaN) \<and>
    \<not> js_lt (case c of Some r \<Rightarrow> r | None \<Rightarrow> NaN) (Fin 0)) = finiteNonNeg c"
  by (cases c rule: finiteNonNeg.cases) auto

lemma timeNum_ok_iff:
  "(isFinite (case c of Some t \<Rightarrow> t | None \<Rightarrow> NaN) \<and>
    \<not> js_le (case c of Some t \<Rightarrow> t | None \<Rightarrow> NaN) (Fin 0)) = finitePos c"
  by (cases c rule: finitePos.cases) auto

lemma handleSubmit_calls_cases:
  "snd (handleSubmit nowCreated nowCompleted initial s) = [] \<and>
     \<not> (finiteNonNeg (FormState.revenue s) \<and> finitePos (FormState.timeTaken s))
   \<or> (\<exists>p. snd (handleSubmit nowCreated nowCompleted initial s) = [OnSubmit p, OnClose]) \<and>
     finiteNonNeg (FormState.revenue s) \<and> finitePos (FormState.timeTaken s)"
  unfolding revNum_ok_iff [symmetric] timeNum_ok_iff [symmetric] handleSubmit_def Let_def
  by simp

lemma handleSubmit_state:
  "fst (handleSubmit nowCreated nowCompleted initial s) =
     (let s1 = (if finiteNonNeg (FormState.revenue s) then s
                else s\<lparr>revenueError := Some ''Enter a valid non-negative number''\<rparr>)
      in if finitePos (FormState.timeTaken s) then s1
         else s1\<lparr>timeError := Some ''Enter a positive number (> 0)''\<rparr>)"
  unfolding revNum_ok_iff [symmetric] timeNum_ok_iff [symmetric] handleSubmit_def Let_def
  by simp

lemma handleSubmit_payload:
  assumes "snd (handleSubmit nowCreated nowCompleted initial s) = [OnSubmit p, OnClose]"
  shows "p =
     \<lparr>TaskBody.title = trim (FormState.title s),
      TaskBody.revenue =
        (case FormState.revenue s of
           Some r \<Rightarrow> if isFinite r then r else Fin 0
         | None \<Rightarrow> Fin 0),
      TaskBody.timeTaken =
        (case FormState.timeTaken s of
           Some t \<Rightarrow> if js_gt t (Fin 0) then t else Fin 1
         | None \<Rightarrow> Fin 1),
      TaskBody.priority = (case FormState.priority s of Some q \<Rightarrow> q | None \<Rightarrow> Medium),
      TaskBody.status = (case FormState.status s of Some st \<Rightarrow> st | None \<Rightarrow> Todo),
      TaskBody.notes' =
        (if trim (FormState.notes' s) = [] then None else Some (trim (FormState.notes' s))),
      createdAt = (case initial of Some i \<Rightarrow> createdAt i | None \<Rightarrow> nowCreated),
      completedAt =
        (if FormState.status s = Some Done then
           (case initial of
              Some i \<Rightarrow> (case completedAt i of Some c \<Rightarrow> Some c | None \<Rightarrow> Some nowCompleted)
            | None \<Rightarrow> Some nowCompleted)
         else None),
      Payload.id' =
        (case initial of
           Some i \<Rightarrow> if Task.id' i \<noteq> [] then Some (Task.id' i) else None
         | None \<Rightarrow> None)\<rparr>"
  using assms unfolding handleSubmit_def Let_def
  by (auto split: if_splits option.splits)

subsection \<open>The duplicate check as a set membership\<close>

lemma duplicateTitle_image:
  "duplicateTitle existingTitles initial ttl =
     (trim ttl \<noteq> [] \<and>
      toLowerCase (trim ttl) \<in> toLowerCase `
        {t \<in> set existingTitles.
         case initial of None \<Rightarrow> True
         | Some i \<Rightarrow> toLowerCase t \<noteq> toLowerCase (TaskBody.title i)})"
  by (cases initial) (simp_all add: duplicateTitle_def Let_def toLowerCase_empty_iff)

lemma titleTaken_image:
  "titleTaken existingTitles initial ttl =
     (toLowerCase (trim ttl) \<in> toLowerCase `
        {t \<in> set existingTitles.
         case initial of None \<Rightarrow> True
         | Some i \<Rightarrow> toLowerCase t \<noteq> toLowerCase (TaskBody.title i)})"
  unfolding titleTaken_def image_iff by (cases initial) auto

text \<open>
  The three places where the check differs from a comparison of the entered title with
  the other titles are all written out in the component. The empty title is excluded by
  the test \<open>if (!current) return false\<close> of line 63. The initial task's own title
  is excluded by \<open>t.toLowerCase() !== initial.title.toLowerCase()\<close> in line 64,
  which drops every entry that differs from it in case only. The entries are never
  trimmed, neither in the filter of line 64 nor in the map of line 65, while the typed
  title is trimmed in line 62 exactly as it is when the payload is built in line 134: the
  check compares the title that would be stored with the titles as they are stored.
\<close>

lemma untrimmed_entry_not_matched: "\<not> duplicateTitle ['' a''] None '' a''"
  by (simp add: duplicateTitle_def Let_def trim_def isWhiteSpace_def toLowerCase_def
      lowerChar_def)

lemma case_variant_of_own_title_not_matched:
  "\<not> duplicateTitle [''Foo'', ''foo''] (Some (sampleTask\<lparr>TaskBody.title := ''Foo''\<rparr>)) ''foo''"
  by (simp add: duplicateTitle_def Let_def trim_def isWhiteSpace_def toLowerCase_def
      lowerChar_def sampleTask_def)

subsection \<open>The submit handler on the sample inputs\<close>

lemma submit_sample_create:
  "handleSubmit nowCreated nowCompleted None sampleDraft =
     (sampleDraft,
      [OnSubmit
         \<lparr>TaskBody.title = ''Plan Sprint'', TaskBody.revenue = Fin 50,
          TaskBody.timeTaken = Fin 2, TaskBody.priority = Low, TaskBody.status = InProgress,
          TaskBody.notes' = None, createdAt = nowCreated, completedAt = None,
          Payload.id' = None\<rparr>,
       OnClose])"
  by (simp add: handleSubmit_def Let_def sampleDraft_def trim_sample trim_blank js_gt_def)

lemma submit_sample_edit_done:
  "handleSubmit nowCreated nowCompleted (Some sampleTask)
       (sampleDraft\<lparr>FormState.status := Some Done\<rparr>) =
     (sampleDraft\<lparr>FormState.status := Some Done\<rparr>,
      [OnSubmit
         \<lparr>TaskBody.title = ''Plan Sprint'', TaskBody.revenue = Fin 50,
          TaskBody.timeTaken = Fin 2, TaskBody.priority = Low, TaskBody.status = Done,
          TaskBody.notes' = None, createdAt = ''2024-01-01T00:00:00.000Z'',
          completedAt = Some ''2024-01-02T00:00:00.000Z'',
          Payload.id' = Some ''t-1''\<rparr>,
       OnClose])"
  by (simp add: handleSubmit_def Let_def sampleDraft_def sampleTask_def trim_sample trim_blank
      js_gt_def)

lemma submit_blank:
  "handleSubmit nowCreated nowCompleted None blankDraft =
     (blankDraft,
      [OnSubmit
         \<lparr>TaskBody.title = [], TaskBody.revenue = Fin 0,
          TaskBody.timeTaken = Fin 1, TaskBody.priority = Medium, TaskBody.status = Todo,
          TaskBody.notes' = None, createdAt = nowCreated, completedAt = None,
          Payload.id' = None\<rparr>,
       OnClose])"
  by (simp add: handleSubmit_def Let_def blankDraft_def trim_def js_gt_def isWhiteSpace_def)

lemma submit_sample_empty_id:
  "handleSubmit nowCreated nowCompleted (Some (sampleTask\<lparr>Task.id' := []\<rparr>)) sampleDraft =
     (sampleDraft,
      [OnSubmit
         \<lparr>TaskBody.title = ''Plan Sprint'', TaskBody.revenue = Fin 50,
          TaskBody.timeTaken = Fin 2, TaskBody.priority = Low, TaskBody.status = InProgress,
          TaskBody.notes' = None, createdAt = ''2024-01-01T00:00:00.000Z'', completedAt = None,
          Payload.id' = None\<rparr>,
       OnClose])"
  by (simp add: handleSubmit_def Let_def sampleDraft_def sampleTask_def trim_sample trim_blank
      js_gt_def)

section \<open>The claims\<close>

text \<open>
  C1, as the code has it. The duplicate-title flag is true exactly when the trimmed
  title is not empty and the trimmed, lower-cased title equals (case-insensitively) some
  entry of \<open>existingTitles\<close> that is not, compared case-insensitively, the initial
  task's own title when editing. In particular, entering a title whose trimmed form is
  case-insensitively equal to such an entry disables submission.
\<close>

theorem duplicateTitle_iff:
  "duplicateTitle existingTitles initial ttl =
     (trim ttl \<noteq> [] \<and> titleTaken existingTitles initial ttl)
   \<and> (titleTaken existingTitles initial (FormState.title s) \<longrightarrow>
        \<not> canSubmit existingTitles initial s)"
proof -
  have dup: "duplicateTitle existingTitles initial t =
      (trim t \<noteq> [] \<and> titleTaken existingTitles initial t)" for t
    by (simp only: duplicateTitle_image titleTaken_image)
  have gate: "titleTaken existingTitles initial (FormState.title s) \<longrightarrow>
      \<not> canSubmit existingTitles initial s"
    unfolding canSubmit_def dup by blast
  from dup [of ttl] gate show ?thesis by blast
qed

theorem duplicateTitle_iff_witness:
  "duplicateTitle [''Write Report'', ''plan sprint''] None '' Plan Sprint ''
   \<and> \<not> duplicateTitle [''Write Report'', ''plan sprint''] (Some (sampleTask\<lparr>TaskBody.title := ''PLAN SPRINT''\<rparr>)) '' Plan Sprint ''
   \<and> \<not> duplicateTitle [[]] None ''  ''
   \<and> titleTaken [''Write Report'', ''plan sprint''] None (FormState.title sampleDraft)
   \<and> \<not> canSubmit [''Write Report'', ''plan sprint''] None sampleDraft"
  using duplicateTitle_iff [of "[''Write Report'', ''plan sprint'']" None "'' Plan Sprint ''" sampleDraft]
    duplicateTitle_iff [of "[''Write Report'', ''plan sprint'']"
       "Some (sampleTask\<lparr>TaskBody.title := ''PLAN SPRINT''\<rparr>)" "'' Plan Sprint ''" sampleDraft]
    duplicateTitle_iff [of "[[]]" None "''  ''" sampleDraft]
  by (simp add: titleTaken_def trim_sample trim_blank sampleDraft_def sampleTask_def
      toLowerCase_def lowerChar_def)

text \<open>
  C1 as stated fails in three ways. With the empty string among \<open>existingTitles\<close>
  and a blank title, the trimmed title equals an entry and the flag is false. With the
  entries \<open>Foo\<close> and \<open>foo\<close>, the task titled \<open>Foo\<close> being edited and
  \<open>foo\<close> entered, the title equals an entry other than the initial task's own
  title, and the flag is false and submission enabled. With the entry \<open>" a"\<close> and
  \<open>" a"\<close> entered, the title entered is an existing title, and submission is
  enabled.
\<close>

theorem duplicateTitle_claim_counterexample:
  "\<not> (duplicateTitle [[]] None ''  '' = titleTakenAsStated [[]] None ''  '')
   \<and> \<not> (duplicateTitle [''Foo'', ''foo''] (Some (sampleTask\<lparr>TaskBody.title := ''Foo''\<rparr>)) ''foo''
          = titleTakenAsStated [''Foo'', ''foo'']
              (Some (sampleTask\<lparr>TaskBody.title := ''Foo''\<rparr>)) ''foo'')
   \<and> enteredTitleExists [''Foo'', ''foo''] (Some (sampleTask\<lparr>TaskBody.title := ''Foo''\<rparr>)) ''foo''
   \<and> canSubmit [''Foo'', ''foo''] (Some (sampleTask\<lparr>TaskBody.title := ''Foo''\<rparr>))
        (sampleDraft\<lparr>FormState.title := ''foo''\<rparr>)
   \<and> enteredTitleExists ['' a''] None '' a''
   \<and> canSubmit ['' a''] None (sampleDraft\<lparr>FormState.title := '' a''\<rparr>)"
proof -
  have trims: "trim ''  '' = []" "trim ''foo'' = ''foo''" "trim '' a'' = ''a''"
    by (simp_all add: trim_def isWhiteSpace_def)
  have lowers: "toLowerCase ''foo'' = ''foo''" "toLowerCase ''Foo'' = ''foo''"
    "toLowerCase '' a'' = '' a''" "toLowerCase ''a'' = ''a''" "toLowerCase [] = []"
    by (simp_all add: toLowerCase_def lowerChar_def)
  have blank: "\<not> (duplicateTitle [[]] None ''  '' = titleTakenAsStated [[]] None ''  '')"
    by (simp add: duplicateTitle_def titleTakenAsStated_def trims lowers)
  have own_flag: "\<not> duplicateTitle [''Foo'', ''foo'']
      (Some (sampleTask\<lparr>TaskBody.title := ''Foo''\<rparr>)) ''foo''"
    by (simp add: duplicateTitle_def Let_def trims lowers sampleTask_def)
  have own_stated: "titleTakenAsStated [''Foo'', ''foo'']
      (Some (sampleTask\<lparr>TaskBody.title := ''Foo''\<rparr>)) ''foo''"
    by (simp add: titleTakenAsStated_def trims lowers sampleTask_def)
  have own_entered: "enteredTitleExists [''Foo'', ''foo'']
      (Some (sampleTask\<lparr>TaskBody.title := ''Foo''\<rparr>)) ''foo''"
    by (simp add: enteredTitleExists_def lowers sampleTask_def)
  have own_gate: "canSubmit [''Foo'', ''foo''] (Some (sampleTask\<lparr>TaskBody.title := ''Foo''\<rparr>))
      (sampleDraft\<lparr>FormState.title := ''foo''\<rparr>)"
    using own_flag by (simp add: canSubmit_def sampleDraft_def trims js_ge_def js_gt_def)
  have space_entered: "enteredTitleExists ['' a''] None '' a''"
    by (simp add: enteredTitleExists_def)
  have space_flag: "\<not> duplicateTitle ['' a''] None '' a''"
    by (simp add: duplicateTitle_def Let_def trims lowers)
  have space_gate: "canSubmit ['' a''] None (sampleDraft\<lparr>FormState.title := '' a''\<rparr>)"
    using space_flag by (simp add: canSubmit_def sampleDraft_def trims js_ge_def js_gt_def)
  from blank own_flag own_stated own_entered own_gate space_entered space_gate
  show ?thesis by simp
qed

text \<open>
  C2. In every state the submit handler calls \<open>onSubmit\<close> once and then
  \<open>onClose\<close> once exactly when the revenue cell holds a finite number \<open>\<ge> 0\<close> and
  the time cell a finite number \<open>> 0\<close>. Otherwise it makes no call, sets the
  message of each field that failed and leaves the message of a field that passed as it
  was. The handler has no raising operation: it is a total function of the state.
\<close>

theorem handleSubmit_calls_iff:
  "((\<exists>p. snd (handleSubmit nowCreated nowCompleted initial s) = [OnSubmit p, OnClose]) =
      (finiteNonNeg (FormState.revenue s) \<and> finitePos (FormState.timeTaken s)))
   \<and> (\<not> (finiteNonNeg (FormState.revenue s) \<and> finitePos (FormState.timeTaken s)) \<longrightarrow>
        snd (handleSubmit nowCreated nowCompleted initial s) = [] \<and>
        (\<not> finiteNonNeg (FormState.revenue s) \<longrightarrow>
           revenueError (fst (handleSubmit nowCreated nowCompleted initial s)) =
             Some ''Enter a valid non-negative number'') \<and>
        (\<not> finitePos (FormState.timeTaken s) \<longrightarrow>
           timeError (fst (handleSubmit nowCreated nowCompleted initial s)) =
             Some ''Enter a positive number (> 0)'') \<and>
        (finiteNonNeg (FormState.revenue s) \<longrightarrow>
           revenueError (fst (handleSubmit nowCreated nowCompleted initial s)) =
             revenueError s) \<and>
        (finitePos (FormState.timeTaken s) \<longrightarrow>
           timeError (fst (handleSubmit nowCreated nowCompleted initial s)) = timeError s))"
proof -
  let ?calls = "snd (handleSubmit nowCreated nowCompleted initial s)"
  let ?ok = "finiteNonNeg (FormState.revenue s) \<and> finitePos (FormState.timeTaken s)"
  have cases: "?calls = [] \<and> \<not> ?ok \<or> (\<exists>p. ?calls = [OnSubmit p, OnClose]) \<and> ?ok"
    using handleSubmit_calls_cases [of nowCreated nowCompleted initial s] by blast
  have iff: "(\<exists>p. ?calls = [OnSubmit p, OnClose]) = ?ok"
    using cases by auto
  have none: "\<not> ?ok \<longrightarrow> ?calls = []"
    using cases by auto
  have rev: "\<not> finiteNonNeg (FormState.revenue s) \<longrightarrow>
      revenueError (fst (handleSubmit nowCreated nowCompleted initial s)) =
        Some ''Enter a valid non-negative number''"
    by (simp add: handleSubmit_state Let_def)
  have tim: "\<not> finitePos (FormState.timeTaken s) \<longrightarrow>
      timeError (fst (handleSubmit nowCreated nowCompleted initial s)) =
        Some ''Enter a positive number (> 0)''"
    by (simp add: handleSubmit_state Let_def)
  have rev_kept: "finiteNonNeg (FormState.revenue s) \<longrightarrow>
      revenueError (fst (handleSubmit nowCreated nowCompleted initial s)) = revenueError s"
    by (simp add: handleSubmit_state Let_def)
  have tim_kept: "finitePos (FormState.timeTaken s) \<longrightarrow>
      timeError (fst (handleSubmit nowCreated nowCompleted initial s)) = timeError s"
    by (simp add: handleSubmit_state Let_def)
  from iff none rev tim rev_kept tim_kept show ?thesis by blast
qed

theorem handleSubmit_calls_iff_witness:
  "(\<exists>p. snd (handleSubmit ''2024-03-01T10:00:00.000Z'' ''2024-03-01T10:00:00.001Z'' None
               sampleDraft) = [OnSubmit p, OnClose])
   \<and> snd (handleSubmit ''2024-03-01T10:00:00.000Z'' ''2024-03-01T10:00:00.001Z'' None
            (sampleDraft\<lparr>FormState.revenue := None, FormState.timeTaken := Some (Fin 0)\<rparr>)) = []
   \<and> revenueError (fst (handleSubmit ''2024-03-01T10:00:00.000Z'' ''2024-03-01T10:00:00.001Z'' None
            (sampleDraft\<lparr>FormState.revenue := None, FormState.timeTaken := Some (Fin 0)\<rparr>))) =
        Some ''Enter a valid non-negative number''
   \<and> timeError (fst (handleSubmit ''2024-03-01T10:00:00.000Z'' ''2024-03-01T10:00:00.001Z'' None
            (sampleDraft\<lparr>FormState.revenue := None, FormState.timeTaken := Some (Fin 0)\<rparr>))) =
        Some ''Enter a positive number (> 0)''
   \<and> revenueError (fst (handleSubmit ''2024-03-01T10:00:00.000Z'' ''2024-03-01T10:00:00.001Z'' None
            (sampleDraft\<lparr>FormState.timeTaken := None\<rparr>))) = Some ''Revenue is required''"
  using
    handleSubmit_calls_iff [of "''2024-03-01T10:00:00.000Z''" "''2024-03-01T10:00:00.001Z''" None
      "sampleDraft\<lparr>FormState.timeTaken := None\<rparr>"]
    handleSubmit_calls_iff [of "''2024-03-01T10:00:00.000Z''" "''2024-03-01T10:00:00.001Z''" None
      sampleDraft]
    handleSubmit_calls_iff [of "''2024-03-01T10:00:00.000Z''" "''2024-03-01T10:00:00.001Z''" None
      "sampleDraft\<lparr>FormState.revenue := None, FormState.timeTaken := Some (Fin 0)\<rparr>"]
  by (simp add: sampleDraft_def)

text \<open>
  C3. In every emitted payload \<open>completedAt\<close> is defined exactly when the status
  cell is \<open>Done\<close>. It is then the initial task's \<open>completedAt\<close> when that is
  present and the current time otherwise; for every other status it is undefined,
  whatever the initial task has.
\<close>

theorem payload_completedAt:
  assumes "snd (handleSubmit nowCreated nowCompleted initial s) = [OnSubmit p, OnClose]"
  shows "((completedAt p \<noteq> None) = (FormState.status s = Some Done))
    \<and> (FormState.status s = Some Done \<longrightarrow>
         completedAt p =
           Some (case initial of
                   None \<Rightarrow> nowCompleted
                 | Some i \<Rightarrow> (case completedAt i of None \<Rightarrow> nowCompleted | Some c \<Rightarrow> c)))
    \<and> (FormState.status s \<noteq> Some Done \<longrightarrow> completedAt p = None)"
proof -
  note p = handleSubmit_payload [OF assms]
  show ?thesis
    by (subst (1 2 3) p) (simp split: option.splits)
qed

theorem payload_completedAt_witness:
  "snd (handleSubmit ''2024-03-01T10:00:00.000Z'' ''2024-03-01T10:00:00.001Z''
         (Some sampleTask) (sampleDraft\<lparr>FormState.status := Some Done\<rparr>)) =
     [OnSubmit
        \<lparr>TaskBody.title = ''Plan Sprint'', TaskBody.revenue = Fin 50,
         TaskBody.timeTaken = Fin 2, TaskBody.priority = Low, TaskBody.status = Done,
         TaskBody.notes' = None, createdAt = ''2024-01-01T00:00:00.000Z'',
         completedAt = Some ''2024-01-02T00:00:00.000Z'',
         Payload.id' = Some ''t-1''\<rparr>,
      OnClose]
   \<and> FormState.status (sampleDraft\<lparr>FormState.status := Some Done\<rparr>) = Some Done
   \<and> completedAt sampleTask = Some ''2024-01-02T00:00:00.000Z''"
proof -
  have emitted:
    "snd (handleSubmit ''2024-03-01T10:00:00.000Z'' ''2024-03-01T10:00:00.001Z''
           (Some sampleTask) (sampleDraft\<lparr>FormState.status := Some Done\<rparr>)) =
       [OnSubmit
          \<lparr>TaskBody.title = ''Plan Sprint'', TaskBody.revenue = Fin 50,
           TaskBody.timeTaken = Fin 2, TaskBody.priority = Low, TaskBody.status = Done,
           TaskBody.notes' = None, createdAt = ''2024-01-01T00:00:00.000Z'',
           completedAt = Some ''2024-01-02T00:00:00.000Z'',
           Payload.id' = Some ''t-1''\<rparr>,
        OnClose]"
    by (simp add: submit_sample_edit_done)
  show ?thesis
    using emitted payload_completedAt [OF emitted] by (simp add: sampleTask_def)
qed

text \<open>
  C4, as the code has it. An emitted payload has the trimmed title; the revenue and the
  time of the state (which the two fall-backs, \<open>0\<close> for a revenue that is not finite
  and \<open>1\<close> for a time that is not positive, leave as they are); the priority, or
  \<open>Medium\<close> when none is selected; the status, or \<open>Todo\<close> when none is selected;
  the trimmed notes, or undefined when they are blank; and the initial task's \<open>id\<close>
  exactly when there is an initial task and its \<open>id\<close> is not the empty string.
\<close>

theorem payload_fields:
  assumes "snd (handleSubmit nowCreated nowCompleted initial s) = [OnSubmit p, OnClose]"
  shows "TaskBody.title p = trim (FormState.title s)
    \<and> FormState.revenue s = Some (TaskBody.revenue p)
    \<and> TaskBody.revenue p =
        (case FormState.revenue s of
           Some r \<Rightarrow> if isFinite r then r else Fin 0
         | None \<Rightarrow> Fin 0)
    \<and> FormState.timeTaken s = Some (TaskBody.timeTaken p)
    \<and> TaskBody.timeTaken p =
        (case FormState.timeTaken s of
           Some t \<Rightarrow> if js_gt t (Fin 0) then t else Fin 1
         | None \<Rightarrow> Fin 1)
    \<and> TaskBody.priority p = (case FormState.priority s of None \<Rightarrow> Medium | Some q \<Rightarrow> q)
    \<and> TaskBody.status p = (case FormState.status s of None \<Rightarrow> Todo | Some st \<Rightarrow> st)
    \<and> TaskBody.notes' p =
        (if trim (FormState.notes' s) = [] then None else Some (trim (FormState.notes' s)))
    \<and> Payload.id' p =
        (case initial of
           None \<Rightarrow> None
         | Some i \<Rightarrow> if Task.id' i = [] then None else Some (Task.id' i))"
proof -
  note p = handleSubmit_payload [OF assms]
  have ok: "finiteNonNeg (FormState.revenue s) \<and> finitePos (FormState.timeTaken s)"
    using handleSubmit_calls_cases [of nowCreated nowCompleted initial s] assms by auto
  obtain r where r: "FormState.revenue s = Some (Fin r)"
    using ok by (auto simp: finiteNonNeg_cases)
  obtain t where t: "FormState.timeTaken s = Some (Fin t)" "0 < t"
    using ok by (auto simp: finitePos_cases)
  have rev: "TaskBody.revenue p = Fin r"
    by (subst p) (simp add: r)
  have tim: "TaskBody.timeTaken p = Fin t"
    by (subst p) (simp add: t js_gt_def)
  have ttl: "TaskBody.title p = trim (FormState.title s)"
    by (subst p) simp
  have pri: "TaskBody.priority p = (case FormState.priority s of None \<Rightarrow> Medium | Some q \<Rightarrow> q)"
    by (subst p) (simp split: option.splits)
  have sta: "TaskBody.status p = (case FormState.status s of None \<Rightarrow> Todo | Some st \<Rightarrow> st)"
    by (subst p) (simp split: option.splits)
  have nts: "TaskBody.notes' p =
      (if trim (FormState.notes' s) = [] then None else Some (trim (FormState.notes' s)))"
    by (subst p) simp
  have ident: "Payload.id' p =
      (case initial of
         None \<Rightarrow> None
       | Some i \<Rightarrow> if Task.id' i = [] then None else Some (Task.id' i))"
    by (subst p) (simp split: option.splits)
  show ?thesis
    using ttl pri sta nts ident by (simp add: r t rev tim js_gt_def)
qed

theorem payload_fields_witness:
  "snd (handleSubmit ''2024-03-01T10:00:00.000Z'' ''2024-03-01T10:00:00.001Z''
         (Some sampleTask) (sampleDraft\<lparr>FormState.status := Some Done\<rparr>)) =
     [OnSubmit
        \<lparr>TaskBody.title = ''Plan Sprint'', TaskBody.revenue = Fin 50,
         TaskBody.timeTaken = Fin 2, TaskBody.priority = Low, TaskBody.status = Done,
         TaskBody.notes' = None, createdAt = ''2024-01-01T00:00:00.000Z'',
         completedAt = Some ''2024-01-02T00:00:00.000Z'',
         Payload.id' = Some ''t-1''\<rparr>,
      OnClose]
   \<and> trim (FormState.title sampleDraft) = ''Plan Sprint''
   \<and> trim (FormState.notes' sampleDraft) = []
   \<and> Task.id' sampleTask = ''t-1''"
proof -
  have emitted:
    "snd (handleSubmit ''2024-03-01T10:00:00.000Z'' ''2024-03-01T10:00:00.001Z''
           (Some sampleTask) (sampleDraft\<lparr>FormState.status := Some Done\<rparr>)) =
       [OnSubmit
          \<lparr>TaskBody.title = ''Plan Sprint'', TaskBody.revenue = Fin 50,
           TaskBody.timeTaken = Fin 2, TaskBody.priority = Low, TaskBody.status = Done,
           TaskBody.notes' = None, createdAt = ''2024-01-01T00:00:00.000Z'',
           completedAt = Some ''2024-01-02T00:00:00.000Z'',
           Payload.id' = Some ''t-1''\<rparr>,
        OnClose]"
    by (simp add: submit_sample_edit_done)
  show ?thesis
    using emitted payload_fields [OF emitted]
    by (simp add: sampleTask_def sampleDraft_def trim_blank)
qed

text \<open>
  C4 as stated, with the \<open>id\<close> attached whenever an existing task is edited, fails
  for an initial task whose \<open>id\<close> is the empty string: the payload carries no
  \<open>id\<close>.
\<close>

theorem payload_id_counterexample:
  "snd (handleSubmit ''2024-03-01T10:00:00.000Z'' ''2024-03-01T10:00:00.001Z''
         (Some (sampleTask\<lparr>Task.id' := []\<rparr>)) sampleDraft) =
     [OnSubmit
        \<lparr>TaskBody.title = ''Plan Sprint'', TaskBody.revenue = Fin 50,
         TaskBody.timeTaken = Fin 2, TaskBody.priority = Low, TaskBody.status = InProgress,
         TaskBody.notes' = None, createdAt = ''2024-01-01T00:00:00.000Z'', completedAt = None,
         Payload.id' = None\<rparr>,
      OnClose]
   \<and> Payload.id'
        \<lparr>TaskBody.title = ''Plan Sprint'', TaskBody.revenue = Fin 50,
         TaskBody.timeTaken = Fin 2, TaskBody.priority = Low, TaskBody.status = InProgress,
         TaskBody.notes' = None, createdAt = ''2024-01-01T00:00:00.000Z'', completedAt = None,
         Payload.id' = None\<rparr>
       \<noteq> Some (Task.id' (sampleTask\<lparr>Task.id' := []\<rparr>))"
  by (simp add: submit_sample_empty_id)

text \<open>
  C5. The submit button is enabled exactly when the trimmed title is not empty, the
  title is no duplicate, the revenue cell holds a finite number \<open>\<ge> 0\<close>, the time
  cell holds a finite number \<open>> 0\<close>, and a priority and a status are selected.
\<close>

theorem canSubmit_iff:
  "canSubmit existingTitles initial s =
     (trim (FormState.title s) \<noteq> [] \<and>
      \<not> duplicateTitle existingTitles initial (FormState.title s) \<and>
      finiteNonNeg (FormState.revenue s) \<and>
      finitePos (FormState.timeTaken s) \<and>
      FormState.priority s \<noteq> None \<and>
      FormState.status s \<noteq> None)"
proof -
  have rev: "(case FormState.revenue s of None \<Rightarrow> False
              | Some r \<Rightarrow> isFinite r \<and> js_ge r (Fin 0)) = finiteNonNeg (FormState.revenue s)"
    by (cases "FormState.revenue s") (simp_all add: revenue_gate_iff)
  have tim: "(case FormState.timeTaken s of None \<Rightarrow> False
              | Some t \<Rightarrow> isFinite t \<and> js_gt t (Fin 0)) = finitePos (FormState.timeTaken s)"
    by (cases "FormState.timeTaken s") (simp_all add: time_gate_iff)
  show ?thesis
    unfolding canSubmit_def rev tim by (rule refl)
qed

theorem canSubmit_iff_witness:
  "canSubmit [''Write report''] None sampleDraft
   \<and> \<not> canSubmit [''plan sprint''] None sampleDraft
   \<and> \<not> canSubmit [] None (sampleDraft\<lparr>FormState.revenue := Some NaN\<rparr>)
   \<and> \<not> canSubmit [] None (sampleDraft\<lparr>FormState.timeTaken := Some (Fin 0)\<rparr>)
   \<and> \<not> canSubmit [] None (sampleDraft\<lparr>FormState.status := None\<rparr>)"
  using canSubmit_iff [of "[''Write report'']" None sampleDraft]
    canSubmit_iff [of "[''plan sprint'']" None sampleDraft]
    canSubmit_iff [of "[]" None "sampleDraft\<lparr>FormState.revenue := Some NaN\<rparr>"]
    canSubmit_iff [of "[]" None "sampleDraft\<lparr>FormState.timeTaken := Some (Fin 0)\<rparr>"]
    canSubmit_iff [of "[]" None "sampleDraft\<lparr>FormState.status := None\<rparr>"]
  by (simp add: sampleDraft_def duplicateTitle_def trim_sample toLowerCase_def lowerChar_def)

text \<open>
  C6. In every emitted payload \<open>createdAt\<close> is the initial task's \<open>createdAt\<close>
  when a task is edited, and the current time when a task is created.
\<close>

theorem payload_createdAt:
  assumes "snd (handleSubmit nowCreated nowCompleted initial s) = [OnSubmit p, OnClose]"
  shows "(\<forall>i. initial = Some i \<longrightarrow> createdAt p = createdAt i)
    \<and> (initial = None \<longrightarrow> createdAt p = nowCreated)"
proof -
  note p = handleSubmit_payload [OF assms]
  show ?thesis
    by (subst (1 2) p) simp
qed

theorem payload_createdAt_witness:
  "snd (handleSubmit ''2024-03-01T10:00:00.000Z'' ''2024-03-01T10:00:00.001Z''
         (Some sampleTask) (sampleDraft\<lparr>FormState.status := Some Done\<rparr>)) =
     [OnSubmit
        \<lparr>TaskBody.title = ''Plan Sprint'', TaskBody.revenue = Fin 50,
         TaskBody.timeTaken = Fin 2, TaskBody.priority = Low, TaskBody.status = Done,
         TaskBody.notes' = None, createdAt = ''2024-01-01T00:00:00.000Z'',
         completedAt = Some ''2024-01-02T00:00:00.000Z'',
         Payload.id' = Some ''t-1''\<rparr>,
      OnClose]
   \<and> createdAt sampleTask = ''2024-01-01T00:00:00.000Z''"
proof -
  have emitted:
    "snd (handleSubmit ''2024-03-01T10:00:00.000Z'' ''2024-03-01T10:00:00.001Z''
           (Some sampleTask) (sampleDraft\<lparr>FormState.status := Some Done\<rparr>)) =
       [OnSubmit
          \<lparr>TaskBody.title = ''Plan Sprint'', TaskBody.revenue = Fin 50,
           TaskBody.timeTaken = Fin 2, TaskBody.priority = Low, TaskBody.status = Done,
           TaskBody.notes' = None, createdAt = ''2024-01-01T00:00:00.000Z'',
           completedAt = Some ''2024-01-02T00:00:00.000Z'',
           Payload.id' = Some ''t-1''\<rparr>,
        OnClose]"
    by (simp add: submit_sample_edit_done)
  show ?thesis
    using emitted payload_createdAt [OF emitted] by (simp add: sampleTask_def)
qed

text \<open>
  C7. After the revenue change handler has run on the text \<open>v\<close>, the revenue
  message is set exactly when \<open>v\<close> is empty, \<open>Number(v)\<close> is not finite or
  \<open>Number(v) < 0\<close>; after the time change handler, the time message is set exactly
  when \<open>v\<close> is empty, \<open>Number(v)\<close> is not finite or \<open>Number(v) <= 0\<close>.
\<close>

theorem change_handlers_error_iff:
  "(revenueError (handleRevenueChange Number v s) \<noteq> None) =
     (v = [] \<or> \<not> isFinite (Number v) \<or> js_lt (Number v) (Fin 0))
   \<and> (timeError (handleTimeChange Number v s) \<noteq> None) =
     (v = [] \<or> \<not> isFinite (Number v) \<or> js_le (Number v) (Fin 0))"
  by (simp add: handleRevenueChange_def handleTimeChange_def Let_def)

theorem change_handlers_error_iff_witness:
  "revenueError (handleRevenueChange (\<lambda>v. if v = ''0'' then Fin 0 else if v = ''-1'' then Fin (-1) else NaN)
       ''0'' sampleDraft) = None
   \<and> timeError (handleTimeChange (\<lambda>v. if v = ''0'' then Fin 0 else if v = ''-1'' then Fin (-1) else NaN)
       ''0'' sampleDraft) \<noteq> None
   \<and> revenueError (handleRevenueChange (\<lambda>v. if v = ''0'' then Fin 0 else if v = ''-1'' then Fin (-1) else NaN)
       ''-1'' sampleDraft) \<noteq> None
   \<and> revenueError (handleRevenueChange (\<lambda>v. if v = ''0'' then Fin 0 else if v = ''-1'' then Fin (-1) else NaN)
       ''abc'' sampleDraft) \<noteq> None
   \<and> revenueError (handleRevenueChange (\<lambda>v. if v = ''0'' then Fin 0 else if v = ''-1'' then Fin (-1) else NaN)
       [] blankDraft) \<noteq> None"
  using
    change_handlers_error_iff [of "\<lambda>v. if v = ''0'' then Fin 0 else if v = ''-1'' then Fin (-1) else NaN" "''0''" sampleDraft]
    change_handlers_error_iff [of "\<lambda>v. if v = ''0'' then Fin 0 else if v = ''-1'' then Fin (-1) else NaN" "''-1''" sampleDraft]
    change_handlers_error_iff [of "\<lambda>v. if v = ''0'' then Fin 0 else if v = ''-1'' then Fin (-1) else NaN" "''abc''" sampleDraft]
    change_handlers_error_iff [of "\<lambda>v. if v = ''0'' then Fin 0 else if v = ''-1'' then Fin (-1) else NaN" "[]" blankDraft]
  by simp

text \<open>
  C8. When the dialog opens without an initial task, the six field cells are reset to
  their blank values and both messages are cleared.
\<close>

theorem open_create_resets:
  "openEffect True None s =
     s\<lparr>FormState.title := [], FormState.revenue := None, FormState.timeTaken := None,
       FormState.priority := None, FormState.status := None, FormState.notes' := [],
       revenueError := None, timeError := None\<rparr>
   \<and> FormState.title (openEffect True None s) = []
   \<and> FormState.revenue (openEffect True None s) = None
   \<and> FormState.timeTaken (openEffect True None s) = None
   \<and> FormState.priority (openEffect True None s) = None
   \<and> FormState.status (openEffect True None s) = None
   \<and> FormState.notes' (openEffect True None s) = []
   \<and> revenueError (openEffect True None s) = None
   \<and> timeError (openEffect True None s) = None"
  by (simp add: openEffect_def)

theorem open_create_resets_witness:
  "FormState.title (openEffect True None sampleDraft) = []
   \<and> FormState.revenue (openEffect True None sampleDraft) = None
   \<and> FormState.timeTaken (openEffect True None sampleDraft) = None
   \<and> FormState.priority (openEffect True None sampleDraft) = None
   \<and> FormState.status (openEffect True None sampleDraft) = None
   \<and> FormState.notes' (openEffect True None sampleDraft) = []
   \<and> revenueError sampleDraft \<noteq> None
   \<and> revenueError (openEffect True None sampleDraft) = None
   \<and> timeError (openEffect True None sampleDraft) = None"
  using open_create_resets [of sampleDraft] by (simp add: sampleDraft_def)

text \<open>
  C9. The submit handler checks the two numeric cells only. Whenever the revenue is a
  finite number \<open>\<ge> 0\<close> and the time a finite number \<open>> 0\<close> it emits a payload
  and closes, whatever the title, the duplicate flag, the priority and the status are:
  called with the button disabled, it emits a payload with an empty title from the blank
  draft, and one with a duplicate title from the sample draft.
\<close>

theorem submit_ignores_gate:
  "(finiteNonNeg (FormState.revenue s) \<and> finitePos (FormState.timeTaken s) \<longrightarrow>
      (\<exists>p. snd (handleSubmit nowCreated nowCompleted initial s) = [OnSubmit p, OnClose]
           \<and> TaskBody.title p = trim (FormState.title s)))
   \<and> (trim (FormState.title blankDraft) = []
      \<and> FormState.priority blankDraft = None \<and> FormState.status blankDraft = None
      \<and> \<not> canSubmit existingTitles None blankDraft
      \<and> (\<exists>p. snd (handleSubmit nowCreated nowCompleted None blankDraft) = [OnSubmit p, OnClose]
             \<and> TaskBody.title p = []))
   \<and> (duplicateTitle [''plan sprint''] None (FormState.title sampleDraft)
      \<and> \<not> canSubmit [''plan sprint''] None sampleDraft
      \<and> (\<exists>p. snd (handleSubmit nowCreated nowCompleted None sampleDraft) = [OnSubmit p, OnClose]
             \<and> TaskBody.title p = ''Plan Sprint''))"
proof -
  have gen: "finiteNonNeg (FormState.revenue s) \<and> finitePos (FormState.timeTaken s) \<longrightarrow>
      (\<exists>p. snd (handleSubmit nowCreated nowCompleted initial s) = [OnSubmit p, OnClose]
           \<and> TaskBody.title p = trim (FormState.title s))"
  proof
    assume ok: "finiteNonNeg (FormState.revenue s) \<and> finitePos (FormState.timeTaken s)"
    then obtain p where
      p: "snd (handleSubmit nowCreated nowCompleted initial s) = [OnSubmit p, OnClose]"
      using handleSubmit_calls_cases [of nowCreated nowCompleted initial s] by auto
    have "TaskBody.title p = trim (FormState.title s)"
      by (subst handleSubmit_payload [OF p]) simp
    with p show "\<exists>p. snd (handleSubmit nowCreated nowCompleted initial s) = [OnSubmit p, OnClose]
           \<and> TaskBody.title p = trim (FormState.title s)"
      by blast
  qed
  have blank: "trim (FormState.title blankDraft) = []
      \<and> FormState.priority blankDraft = None \<and> FormState.status blankDraft = None
      \<and> \<not> canSubmit existingTitles None blankDraft"
    by (simp add: blankDraft_def trim_blank canSubmit_def)
  have blank_emit: "\<exists>p. snd (handleSubmit nowCreated nowCompleted None blankDraft) =
        [OnSubmit p, OnClose] \<and> TaskBody.title p = []"
    by (simp add: submit_blank)
  have dup: "duplicateTitle [''plan sprint''] None (FormState.title sampleDraft)"
    by (simp add: duplicateTitle_def Let_def sampleDraft_def trim_sample toLowerCase_def
        lowerChar_def)
  then have gate: "\<not> canSubmit [''plan sprint''] None sampleDraft"
    by (simp add: canSubmit_def)
  have dup_emit: "\<exists>p. snd (handleSubmit nowCreated nowCompleted None sampleDraft) =
        [OnSubmit p, OnClose] \<and> TaskBody.title p = ''Plan Sprint''"
    by (simp add: submit_sample_create)
  from gen blank blank_emit dup gate dup_emit show ?thesis by blast
qed

theorem submit_ignores_gate_witness:
  "finiteNonNeg (FormState.revenue blankDraft) \<and> finitePos (FormState.timeTaken blankDraft)
   \<and> \<not> canSubmit [] None blankDraft
   \<and> (\<exists>p. snd (handleSubmit ''2024-03-01T10:00:00.000Z'' ''2024-03-01T10:00:00.001Z'' None
              blankDraft) = [OnSubmit p, OnClose]
          \<and> TaskBody.title p = trim (FormState.title blankDraft))"
  using submit_ignores_gate [of blankDraft "''2024-03-01T10:00:00.000Z''"
      "''2024-03-01T10:00:00.001Z''" None "[]"]
  by (simp add: blankDraft_def)

text \<open>
  C10. When the dialog opens with an initial task, the six field cells are set from the
  task, and the two messages are what they were before: a message set earlier is still
  there in the newly opened edit dialog.
\<close>

theorem open_edit_keeps_errors:
  "FormState.title (openEffect True (Some i) s) = TaskBody.title i
   \<and> FormState.revenue (openEffect True (Some i) s) = Some (TaskBody.revenue i)
   \<and> FormState.timeTaken (openEffect True (Some i) s) = Some (TaskBody.timeTaken i)
   \<and> FormState.priority (openEffect True (Some i) s) = Some (TaskBody.priority i)
   \<and> FormState.status (openEffect True (Some i) s) = Some (TaskBody.status i)
   \<and> FormState.notes' (openEffect True (Some i) s) =
        (case TaskBody.notes' i of None \<Rightarrow> [] | Some n \<Rightarrow> n)
   \<and> revenueError (openEffect True (Some i) s) = revenueError s
   \<and> timeError (openEffect True (Some i) s) = timeError s"
  by (simp add: openEffect_def)

theorem open_edit_keeps_errors_witness:
  "FormState.title (openEffect True (Some sampleTask) sampleDraft) = ''Write report''
   \<and> FormState.revenue (openEffect True (Some sampleTask) sampleDraft) = Some (Fin 120)
   \<and> FormState.notes' (openEffect True (Some sampleTask) sampleDraft) = ''first draft''
   \<and> revenueError (openEffect True (Some sampleTask) sampleDraft) = Some ''Revenue is required''
   \<and> timeError (openEffect True (Some sampleTask) sampleDraft) = None"
  using open_edit_keeps_errors [of sampleTask sampleDraft]
  by (simp add: sampleDraft_def sampleTask_def)

end
